theory Spec2Isabelle
  imports Main "HOL-Library.Word" "HOL-Library.Multiset"
begin

section \<open>The on-chain access layer of client/src/utils/blockchain.ts\<close>

text \<open>
  The module is a set of asynchronous functions over three outside parties: the voting
  contract behind a JSON-RPC provider, the browser wallet that signs, and the browser's
  \<^verbatim>\<open>localStorage\<close>. Each party is a record of the answers it gives; a call that throws
  is the left summand of its answer, so every \<^verbatim>\<open>try\<close>/\<^verbatim>\<open>catch\<close> of the source is a case
  distinction of the model. \<^verbatim>\<open>localStorage\<close> is passed to the functions of the candidate
  reader and to the write functions, and returned by them as they leave it. Console
  output is not modelled.

  Conventions taken for the whole file:
  \<^item> a \<^verbatim>\<open>uint256\<close> read from the contract and passed through \<^verbatim>\<open>Number\<close> is a \<open>nat\<close>,
    a JavaScript time is an \<open>int\<close>; the rounding of numbers beyond \<open>2^53\<close> is out of scope;
  \<^item> \<^verbatim>\<open>Date.now()\<close> is one reading \<open>dateNow\<close> (milliseconds) per call of a function;
  \<^item> \<^verbatim>\<open>localStorage.getItem\<close> and \<^verbatim>\<open>setItem\<close> themselves do not throw, and building the
    provider and contract handles does not throw.
\<close>

subsection \<open>Thrown values\<close>

record js_error =
  code :: string
  message :: "string option"

type_synonym 'a attempt = "js_error + 'a"

text \<open>The \<^verbatim>\<open>TypeError\<close> of a property read on \<^verbatim>\<open>null\<close> or \<^verbatim>\<open>undefined\<close>, or of a call of
  something that is not a function.\<close>

definition typeError :: js_error where
  "typeError = \<lparr>code = '''', message = Some ''TypeError''\<rparr>"

subsection \<open>Rounds\<close>

record election =
  name :: string
  startTime :: nat
  endTime :: nat
  exists :: bool

subsection \<open>Candidates\<close>

text \<open>
  A \<^verbatim>\<open>uint256\<close> as the contract call hands it over, seen through the one thing the module
  does with it, \<^verbatim>\<open>.toNumber()\<close>: either the call yields the number, or it throws (the value
  is outside the safe integers, or what the library returned has no such method).
\<close>

datatype bignumber = BigNumber nat | NoNumber js_error

fun toNumber :: "bignumber \<Rightarrow> nat attempt" where
  "toNumber (BigNumber n) = Inr n"
| "toNumber (NoNumber err) = Inl err"

text \<open>The object the module builds for a candidate. \<open>party = None\<close> is \<^verbatim>\<open>undefined\<close>, which
  is what an array read beyond the end gives.\<close>

record candidate =
  name :: string
  party :: "string option"
  votes :: nat
  index :: nat

text \<open>What \<^verbatim>\<open>contract.getCandidate\<close> and \<^verbatim>\<open>contract.getAllCandidates\<close> return.\<close>

record candidate_info =
  info_name :: string
  info_party :: string
  info_votes :: bignumber

record all_candidates =
  names :: "string list"
  parties :: "string list"
  votesCounts :: "bignumber list"

text \<open>
  The read-only contract, by the calls the module makes on it. The three calls that
  share their name with a function of the module carry the suffix \<open>_call\<close>.
  \<open>electionCreatedEvents id\<close> is \<^verbatim>\<open>contract.queryFilter(contract.filters.ElectionCreated(id))\<close>,
  by the \<^verbatim>\<open>transactionHash\<close> of each event found, and \<open>voteCastEvents\<close> the same for
  \<^verbatim>\<open>VoteCast\<close>.
\<close>

record contract =
  currentElectionId :: "nat attempt"
  elections :: "nat \<Rightarrow> election attempt"
  getCandidate_call :: "nat \<Rightarrow> nat \<Rightarrow> candidate_info attempt"
  getAllCandidates_call :: "nat \<Rightarrow> all_candidates attempt"
  getTotalVotes_call :: "nat \<Rightarrow> bignumber attempt"
  electionCreatedEvents :: "nat \<Rightarrow> string list attempt"
  voteCastEvents :: "nat \<Rightarrow> string list attempt"

subsection \<open>Transaction records and localStorage\<close>

text \<open>
  The \<^verbatim>\<open>timestamp\<close> field of a transaction record. The interface declares a \<^verbatim>\<open>Date\<close>;
  \<^verbatim>\<open>JSON.stringify\<close> writes a \<^verbatim>\<open>Date\<close> as its ISO string and \<^verbatim>\<open>JSON.parse\<close> gives the
  string back, so a record read from \<^verbatim>\<open>localStorage\<close> carries a string there. Both are
  kept by their milliseconds; \<open>NoDate\<close> is a missing or \<^verbatim>\<open>null\<close> field.
\<close>

datatype timestamp = Date int | DateString int | NoDate

text \<open>
  What a provider returns, by the fields the module reads: a mined block, a transaction
  receipt, a transaction (\<open>value\<close> is the text of \<^verbatim>\<open>tx.value.toString()\<close>), and a block
  fetched together with its transactions (\<open>block_transactions\<close> is \<^verbatim>\<open>block.transactions\<close>,
  the plain name being the list the function builds). A missing address (\<^verbatim>\<open>null\<close>) is the empty
  string, so that \<^verbatim>\<open>receipt.from || ""\<close> is the field itself; \<open>status = None\<close> is \<^verbatim>\<open>null\<close>.
  These records come before the module's own transaction record, whose field names the
  plain names then are; theirs are written with the record's name in front.
\<close>

record block =
  timestamp :: nat

record receipt =
  hash :: string
  "from" :: string
  to :: string
  blockNumber :: nat
  status :: "nat option"

record transaction_response =
  hash :: string
  "from" :: string
  to :: string
  data :: string
  "value" :: string
  blockNumber :: nat

record full_block =
  timestamp :: nat
  block_transactions :: "transaction_response list"

record transaction =
  hash :: string
  timestamp :: timestamp
  "from" :: string
  to :: string
  "value" :: string
  "method" :: string
  blockNumber :: nat
  status :: string

text \<open>\<^verbatim>\<open>JSON.parse(JSON.stringify(txData))\<close>: all fields but the date come back as they
  were.\<close>

fun jsonDate :: "timestamp \<Rightarrow> timestamp" where
  "jsonDate (Date ms) = DateString ms"
| "jsonDate (DateString ms) = DateString ms"
| "jsonDate NoDate = NoDate"

definition jsonTransaction :: "transaction \<Rightarrow> transaction" where
  "jsonTransaction t = t\<lparr>timestamp := jsonDate (timestamp t)\<rparr>"

text \<open>
  \<^verbatim>\<open>localStorage\<close>, by the keys of the module: \<^verbatim>\<open>election_<id>_candidates\<close>,
  \<^verbatim>\<open>lastElectionCreationTx\<close> and \<^verbatim>\<open>lastVoteCastTx\<close>. An item is held as the value
  \<^verbatim>\<open>JSON.parse\<close> makes of its text (a candidate list comes back from
  \<^verbatim>\<open>JSON.stringify\<close> as it went in), or is \<open>Garbled\<close>: text that \<^verbatim>\<open>JSON.parse\<close> rejects,
  the empty string, or the text \<^verbatim>\<open>null\<close>, which all end in the branch of a missing item.
  \<open>None\<close> is a key that is not there (\<^verbatim>\<open>getItem\<close> gives \<^verbatim>\<open>null\<close>). An item of another
  shape under one of these keys, which nothing in the module writes, is outside the model.
\<close>

datatype 'a item = Parsed 'a | Garbled

record localStorage =
  election_candidates :: "nat \<Rightarrow> candidate list item option"
  lastElectionCreationTx :: "transaction item option"
  lastVoteCastTx :: "transaction item option"

subsection \<open>getActiveElectionId\<close>

text \<open>\<^verbatim>\<open>Number(election.startTime) <= now && Number(election.endTime) >= now\<close>\<close>

definition inWindow :: "election \<Rightarrow> int \<Rightarrow> bool" where
  "inWindow e now \<longleftrightarrow> int (startTime e) \<le> now \<and> int (endTime e) \<ge> now"

text \<open>
  The \<^verbatim>\<open>for\<close> loop of lines 301 to 323, entered at the id \<open>i\<close> with the bound
  \<open>hi = Math.max(currentIdNumber, maxElectionsToCheck)\<close>. A read that throws is caught
  inside the loop body and the loop continues; falling out of the loop returns 0.
\<close>

function scanElections :: "contract \<Rightarrow> int \<Rightarrow> nat \<Rightarrow> nat \<Rightarrow> nat" where
  "scanElections c now hi i =
     (if i \<le> hi then
        (case elections c i of
           Inl err \<Rightarrow> scanElections c now hi (i + 1)
         | Inr e \<Rightarrow>
             if \<not> exists e then scanElections c now hi (i + 1)
             else if inWindow e now then i
             else scanElections c now hi (i + 1))
      else 0)"
  by pat_completeness auto
termination
  by (relation "measure (\<lambda>(c, now, hi, i). hi + 1 - i)") auto

declare scanElections.simps [simp del]

definition maxElectionsToCheck :: nat where
  "maxElectionsToCheck = 10"

definition getActiveElectionId :: "contract \<Rightarrow> int \<Rightarrow> nat" where
  "getActiveElectionId c dateNow =
     (let now = dateNow div 1000 in
      case currentElectionId c of
        Inl err \<Rightarrow> 0
      | Inr currentIdNumber \<Rightarrow>
          if currentIdNumber > 0 then
            (case elections c currentIdNumber of
               Inl err \<Rightarrow> 0
             | Inr e \<Rightarrow>
                 if exists e \<and> inWindow e now then currentIdNumber
                 else scanElections c now (max currentIdNumber maxElectionsToCheck) 1)
          else scanElections c now (max currentIdNumber maxElectionsToCheck) 1)"

subsection \<open>getCandidate\<close>

definition getCandidate ::
  "contract \<Rightarrow> localStorage \<Rightarrow> nat \<Rightarrow> nat \<Rightarrow> candidate option \<times> localStorage" where
  "getCandidate c ls electionId candidateIndex =
     (case getCandidate_call c electionId candidateIndex of
        Inl err \<Rightarrow> (None, ls)
      | Inr info \<Rightarrow>
          (case toNumber (info_votes info) of
             Inl err \<Rightarrow> (None, ls)
           | Inr n \<Rightarrow>
               (Some \<lparr>name = info_name info, party = Some (info_party info),
                       votes = n, index = candidateIndex\<rparr>, ls)))"

subsection \<open>getAllCandidates\<close>

text \<open>\<^verbatim>\<open>xs[i]\<close>: \<^verbatim>\<open>undefined\<close> beyond the end.\<close>

definition at :: "'a list \<Rightarrow> nat \<Rightarrow> 'a option" where
  "at xs i = (if i < length xs then Some (xs ! i) else None)"

text \<open>
  The loop of lines 457 to 464 over the indices \<open>is\<close> still to visit, \<open>acc\<close> the
  candidates pushed so far. \<^verbatim>\<open>result.votesCounts[i].toNumber()\<close> throws where the array
  has no element \<open>i\<close>, and where \<^verbatim>\<open>toNumber\<close> does.
\<close>

fun pushCandidates :: "all_candidates \<Rightarrow> nat list \<Rightarrow> candidate list \<Rightarrow> candidate list attempt" where
  "pushCandidates r [] acc = Inr acc"
| "pushCandidates r (i # is) acc =
     (case at (votesCounts r) i of
        None \<Rightarrow> Inl typeError
      | Some v \<Rightarrow>
          (case toNumber v of
             Inl err \<Rightarrow> Inl err
           | Inr n \<Rightarrow>
               pushCandidates r is
                 (acc @ [\<lparr>name = names r ! i, party = at (parties r) i, votes = n, index = i\<rparr>])))"

text \<open>The \<^verbatim>\<open>try\<close> block up to the list it builds: the chain read and the loop.\<close>

definition readCandidates :: "contract \<Rightarrow> nat \<Rightarrow> candidate list attempt" where
  "readCandidates c electionId =
     (case getAllCandidates_call c electionId of
        Inl err \<Rightarrow> Inl err
      | Inr result \<Rightarrow> pushCandidates result [0 ..< length (names result)] [])"

definition getAllCandidates ::
  "contract \<Rightarrow> localStorage \<Rightarrow> nat \<Rightarrow> candidate list \<times> localStorage" where
  "getAllCandidates c ls electionId =
     (case readCandidates c electionId of
        Inr candidates \<Rightarrow>
          (candidates,
           if length candidates > 0
           then ls\<lparr>election_candidates := (election_candidates ls)(electionId \<mapsto> Parsed candidates)\<rparr>
           else ls)
      | Inl err \<Rightarrow>
          (case election_candidates ls electionId of
             Some (Parsed parsed) \<Rightarrow> (parsed, ls)
           | Some Garbled \<Rightarrow> ([], ls)
           | None \<Rightarrow> ([], ls)))"

subsection \<open>getTotalVotes\<close>

text \<open>\<^verbatim>\<open>candidates.reduce((sum, candidate) => sum + (candidate.votes || 0), 0)\<close>; the votes
  of a candidate of the model are a number, so \<^verbatim>\<open>|| 0\<close> changes nothing.\<close>

definition sumVotes :: "candidate list \<Rightarrow> nat" where
  "sumVotes candidates = foldl (\<lambda>sum candidate. sum + votes candidate) 0 candidates"

text \<open>The outer \<^verbatim>\<open>catch\<close> of lines 516 to 522 is not reached: \<^verbatim>\<open>getAllCandidates\<close> does not
  throw.\<close>

definition getTotalVotes :: "contract \<Rightarrow> localStorage \<Rightarrow> nat \<Rightarrow> nat \<times> localStorage" where
  "getTotalVotes c ls electionId =
     (let viaCandidates =
            (case getAllCandidates c ls electionId of
               (candidates, ls') \<Rightarrow> (sumVotes candidates, ls'))
      in case getTotalVotes_call c electionId of
           Inl methodError \<Rightarrow> viaCandidates
         | Inr total' \<Rightarrow>
             (case toNumber total' of
                Inl methodError \<Rightarrow> viaCandidates
              | Inr n \<Rightarrow> (n, ls)))"

subsection \<open>The browser wallet\<close>

datatype create_args = CreateElection string int int "string list" "string list"

datatype vote_args = CastVote nat nat string

text \<open>
  The wallet and the contract bound to its signer. \<open>ethereum\<close>: \<^verbatim>\<open>window.ethereum\<close> is there.
  \<open>createElection_send\<close> and \<open>castVote_send\<close> are the contract call followed by
  \<^verbatim>\<open>tx.wait()\<close>: the error either of them throws, or the receipt (\<open>None\<close>: \<^verbatim>\<open>null\<close>); both
  throw into the same \<^verbatim>\<open>catch\<close>, with only console output between them.
\<close>

record wallet =
  ethereum :: bool
  requestAccounts :: "unit attempt"
  getSigner :: "unit attempt"
  createElection_send :: "create_args \<Rightarrow> receipt option attempt"
  castVote_send :: "vote_args \<Rightarrow> receipt option attempt"
  browser_getBlock :: "nat \<Rightarrow> block option attempt"
  signer_currentElectionId :: "nat attempt"

text \<open>What the two write functions return: \<^verbatim>\<open>{success: false, error}\<close>,
  \<^verbatim>\<open>{success: true, transactionHash}\<close>, and the long form with \<^verbatim>\<open>electionId\<close>, \<^verbatim>\<open>from\<close>,
  \<^verbatim>\<open>to\<close> and \<^verbatim>\<open>blockNumber\<close>. The error text is \<open>None\<close> where it is \<^verbatim>\<open>undefined\<close>.\<close>

datatype outcome =
    Failure "string option"
  | Success string
  | SuccessWithId string nat string string nat

text \<open>\<^verbatim>\<open>receipt.status === 1 ? "Confirmed" : "Failed"\<close>\<close>

definition statusText :: "nat option \<Rightarrow> string" where
  "statusText st = (if st = Some 1 then ''Confirmed'' else ''Failed'')"

subsection \<open>createElection\<close>

text \<open>The outer \<^verbatim>\<open>catch\<close> of lines 190 to 200; \<^verbatim>\<open>error.message || "Unknown ..."\<close> takes the
  default for a missing and for an empty message.\<close>

definition createElectionError :: "js_error \<Rightarrow> outcome" where
  "createElectionError err =
     (if code err = ''ACTION_REJECTED'' then Failure (Some ''Transaction was rejected in MetaMask'')
      else Failure (Some (case message err of
                            None \<Rightarrow> ''Unknown error creating election''
                          | Some m \<Rightarrow> if m = [] then ''Unknown error creating election'' else m)))"

text \<open>\<^verbatim>\<open>candidateNames.map((name, index) => ({name, party: candidateParties[index], votes: 0, index}))\<close>\<close>

definition candidateObjects :: "string list \<Rightarrow> string list \<Rightarrow> candidate list" where
  "candidateObjects candidateNames candidateParties =
     map (\<lambda>(i, n). \<lparr>name = n, party = at candidateParties i, votes = 0, index = i\<rparr>)
       (enumerate 0 candidateNames)"

text \<open>
  The result has three parts: what is returned, \<^verbatim>\<open>localStorage\<close> afterwards, and the
  arguments \<^verbatim>\<open>contract.createElection\<close> was called with, if the call was reached. The
  dates are given by their \<^verbatim>\<open>getTime()\<close>; the parameters \<^verbatim>\<open>name\<close>, \<^verbatim>\<open>startTime\<close> and
  \<^verbatim>\<open>endTime\<close> carry a prime, the plain names being fields of the records above.
\<close>

definition createElection ::
  "wallet \<Rightarrow> localStorage \<Rightarrow> int \<Rightarrow> string \<Rightarrow> int \<Rightarrow> int \<Rightarrow> string list \<Rightarrow> string list
     \<Rightarrow> outcome \<times> localStorage \<times> create_args option" where
  "createElection w ls dateNow name' startTime' endTime' candidateNames candidateParties =
     (if \<not> ethereum w then (Failure (Some ''MetaMask is not installed!''), ls, None)
      else case requestAccounts w of
        Inl err \<Rightarrow> (createElectionError err, ls, None)
      | Inr _ \<Rightarrow>
      (case getSigner w of
        Inl err \<Rightarrow> (createElectionError err, ls, None)
      | Inr _ \<Rightarrow>
      (let now = dateNow div 1000 in
       if startTime' div 1000 \<le> now then (Failure (Some ''Start time must be in the future''), ls, None)
       else if endTime' div 1000 \<le> now then (Failure (Some ''End time must be in the future''), ls, None)
       else
        (let adjustedStartTime = dateNow div 1000 + 300;
             adjustedEndTime = dateNow div 1000 + 3600;
             args = CreateElection name' adjustedStartTime adjustedEndTime candidateNames candidateParties
         in case createElection_send w args of
              Inl err \<Rightarrow> (createElectionError err, ls, Some args)
            | Inr None \<Rightarrow> (createElectionError typeError, ls, Some args)
            | Inr (Some receipt) \<Rightarrow>
                (case browser_getBlock w (receipt.blockNumber receipt) of
                   Inl e \<Rightarrow> (Success (receipt.hash receipt), ls, Some args)
                 | Inr None \<Rightarrow> (Success (receipt.hash receipt), ls, Some args)
                 | Inr (Some block) \<Rightarrow>
                     (let txData = \<lparr>hash = receipt.hash receipt,
                                     timestamp = Date (int (block.timestamp block) * 1000),
                                     from = receipt.from receipt, to = receipt.to receipt,
                                     value = ''0'', method = ''createElection'',
                                     blockNumber = receipt.blockNumber receipt,
                                     status = statusText (receipt.status receipt)\<rparr>;
                          ls1 = ls\<lparr>lastElectionCreationTx := Some (Parsed (jsonTransaction txData))\<rparr>
                      in case signer_currentElectionId w of
                           Inl e \<Rightarrow> (Success (receipt.hash receipt), ls1, Some args)
                         | Inr electionIdNumber \<Rightarrow>
                             (SuccessWithId (receipt.hash receipt) electionIdNumber
                                (receipt.from receipt) (receipt.to receipt) (receipt.blockNumber receipt),
                              ls1\<lparr>election_candidates := (election_candidates ls1)
                                    (electionIdNumber \<mapsto> Parsed (candidateObjects candidateNames candidateParties))\<rparr>,
                              Some args)))))))"

subsection \<open>castVote\<close>

text \<open>The outer \<^verbatim>\<open>catch\<close> of lines 256 to 259 returns \<^verbatim>\<open>error.message\<close> and nothing else of
  the error. The stored timestamp is
  \<^verbatim>\<open>(block?.timestamp || Math.floor(Date.now() / 1000)) * 1000\<close>.\<close>

definition castVote ::
  "wallet \<Rightarrow> localStorage \<Rightarrow> int \<Rightarrow> nat \<Rightarrow> nat \<Rightarrow> string \<Rightarrow> outcome \<times> localStorage" where
  "castVote w ls dateNow electionId candidateIndex voterNINHash =
     (if \<not> ethereum w then (Failure (Some ''MetaMask is not installed!''), ls)
      else case requestAccounts w of
        Inl err \<Rightarrow> (Failure (message err), ls)
      | Inr _ \<Rightarrow>
      (case getSigner w of
        Inl err \<Rightarrow> (Failure (message err), ls)
      | Inr _ \<Rightarrow>
      (case castVote_send w (CastVote electionId candidateIndex voterNINHash) of
         Inl err \<Rightarrow> (Failure (message err), ls)
       | Inr None \<Rightarrow> (Failure (message typeError), ls)
       | Inr (Some receipt) \<Rightarrow>
           (case browser_getBlock w (receipt.blockNumber receipt) of
              Inl e \<Rightarrow> (Success (receipt.hash receipt), ls)
            | Inr None \<Rightarrow> (Success (receipt.hash receipt), ls)
            | Inr (Some block) \<Rightarrow>
                (let seconds = (if block.timestamp block = 0 then dateNow div 1000
                                else int (block.timestamp block));
                     txData = \<lparr>hash = receipt.hash receipt,
                                timestamp = Date (seconds * 1000),
                                from = receipt.from receipt, to = receipt.to receipt,
                                value = ''0'', method = ''castVote'',
                                blockNumber = receipt.blockNumber receipt,
                                status = statusText (receipt.status receipt)\<rparr>
                 in (Success (receipt.hash receipt),
                     ls\<lparr>lastVoteCastTx := Some (Parsed (jsonTransaction txData))\<rparr>))))))"

subsection \<open>hashNIN\<close>

text \<open>
  \<^verbatim>\<open>crypto.subtle.digest("SHA-256", data)\<close> belongs to the platform, not to the module:
  it is the parameter \<open>digest\<close>, a function from the bytes hashed to the bytes of the
  buffer it resolves to. SHA-256 gives 32 bytes; where that matters it is a hypothesis.
  A platform without \<^verbatim>\<open>crypto.subtle\<close>, where the call throws, is outside the model.
\<close>

type_synonym byte = "8 word"

text \<open>
  \<^verbatim>\<open>new TextEncoder().encode(nin)\<close>: UTF-8. A \<open>string\<close> of HOL has the code points below
  256, which take one byte below 128 and two bytes from there on.
\<close>

definition encode :: "string \<Rightarrow> byte list" where
  "encode s =
     concat (map (\<lambda>ch. let n = (of_char ch :: nat)
                        in if n < 128 then [of_nat n]
                           else [of_nat (192 + n div 64), of_nat (128 + n mod 64)]) s)"

text \<open>\<^verbatim>\<open>b.toString(16)\<close> and \<^verbatim>\<open>.padStart(2, "0")\<close>\<close>

definition hexDigit :: "nat \<Rightarrow> char" where
  "hexDigit d = ''0123456789abcdef'' ! d"

function toString16 :: "nat \<Rightarrow> string" where
  "toString16 n = (if n < 16 then [hexDigit n] else toString16 (n div 16) @ [hexDigit (n mod 16)])"
  by pat_completeness auto
termination
  by (relation "measure (\<lambda>n. n)") auto

declare toString16.simps [simp del]

definition padStart :: "nat \<Rightarrow> char \<Rightarrow> string \<Rightarrow> string" where
  "padStart n ch s = replicate (n - length s) ch @ s"

definition hashNIN :: "(byte list \<Rightarrow> byte list) \<Rightarrow> string \<Rightarrow> string" where
  "hashNIN digest nin =
     (let data = encode nin;
          hashArray = digest data;
          hashHex = ''0x'' @ concat (map (\<lambda>b. padStart 2 (CHR ''0'') (toString16 (unat b))) hashArray)
      in hashHex)"

subsection \<open>getContractTransactions\<close>

text \<open>
  The read-only provider, by the lookups the function makes, and what
  \<^verbatim>\<open>window.performance\<close> holds: \<open>consoleItems\<close> is the number of resource entries whose name
  includes \<^verbatim>\<open>console.log\<close>. A lookup gives \<open>None\<close> for \<^verbatim>\<open>null\<close>. \<open>getBlockWithTransactions\<close>
  is \<^verbatim>\<open>provider.getBlock(i, true)\<close>.
\<close>

record provider =
  getTransaction :: "string \<Rightarrow> transaction_response option attempt"
  getTransactionReceipt :: "string \<Rightarrow> receipt option attempt"
  getBlock :: "nat \<Rightarrow> block option attempt"
  getBlockNumber :: "nat attempt"
  getBlockWithTransactions :: "nat \<Rightarrow> full_block option attempt"
  consoleItems :: nat

definition CONTRACT_ADDRESS :: string where
  "CONTRACT_ADDRESS = ''0xc0895D39fBBD1918067d5Fa41beDAF51d36665B5''"

text \<open>
  Lines 581 to 606, for a round that exists: no event found pushes nothing; the first
  event found pushes the record of its transaction. \<open>eventRecord\<close> is that record, or what
  is thrown on the way to it: by a lookup, or by reading a field of a \<^verbatim>\<open>null\<close> receipt, block
  or transaction.
\<close>

definition eventRecord :: "provider \<Rightarrow> string \<Rightarrow> transaction attempt" where
  "eventRecord p transactionHash =
     (case getTransaction p transactionHash of
        Inl e \<Rightarrow> Inl e
      | Inr tx \<Rightarrow>
      (case getTransactionReceipt p transactionHash of
        Inl e \<Rightarrow> Inl e
      | Inr None \<Rightarrow> Inl typeError
      | Inr (Some receipt) \<Rightarrow>
      (case getBlock p (receipt.blockNumber receipt) of
        Inl e \<Rightarrow> Inl e
      | Inr None \<Rightarrow> Inl typeError
      | Inr (Some block) \<Rightarrow>
      (case tx of
        None \<Rightarrow> Inl typeError
      | Some tx \<Rightarrow>
          Inr \<lparr>hash = transactionHash,
               timestamp = Date (int (block.timestamp block) * 1000),
               from = receipt.from receipt, to = receipt.to receipt,
               value = transaction_response.value tx, method = ''createElection'',
               blockNumber = receipt.blockNumber receipt,
               status = statusText (receipt.status receipt)\<rparr>))))"

text \<open>
  Lines 611 to 623, the record made up when the events cannot be had. The hash is
  \<^verbatim>\<open>0x\<close> and the first 64 hexadecimal digits of the characters of \<^verbatim>\<open>election.name + id\<close>;
  the time is one day before the start of the round.
\<close>

function decimal :: "nat \<Rightarrow> string" where
  "decimal n =
     (if n < 10 then [''0123456789'' ! n] else decimal (n div 10) @ [''0123456789'' ! (n mod 10)])"
  by pat_completeness auto
termination
  by (relation "measure (\<lambda>n. n)") auto

declare decimal.simps [simp del]

definition synthesized :: "election \<Rightarrow> nat \<Rightarrow> transaction" where
  "synthesized election i =
     \<lparr>hash = ''0x'' @ take 64 (concat (map (\<lambda>ch. padStart 2 (CHR ''0'') (toString16 (of_char ch)))
                                          (election.name election @ decimal i))),
      timestamp = Date (int (startTime election) * 1000 - 1000 * 60 * 60 * 24),
      from = ''0x0000000000000000000000000000000000000000'',
      to = CONTRACT_ADDRESS,
      value = ''0'', method = ''createElection'', blockNumber = 0, status = ''Confirmed''\<rparr>"

definition pushCreation ::
  "contract \<Rightarrow> provider \<Rightarrow> election \<Rightarrow> nat \<Rightarrow> transaction list \<Rightarrow> transaction list" where
  "pushCreation c p election i transactions =
     (case electionCreatedEvents c i of
        Inl eventError \<Rightarrow> transactions @ [synthesized election i]
      | Inr [] \<Rightarrow> transactions
      | Inr (event # _) \<Rightarrow>
          (case eventRecord p event of
             Inl eventError \<Rightarrow> transactions @ [synthesized election i]
           | Inr t \<Rightarrow> transactions @ [t]))"

text \<open>
  Lines 627 to 654, the loop over the vote events of a round: a throw ends the loop and
  the records pushed before it stay.
\<close>

fun pushVotes :: "provider \<Rightarrow> string list \<Rightarrow> transaction list \<Rightarrow> transaction list" where
  "pushVotes p [] transactions = transactions"
| "pushVotes p (event # events) transactions =
     (case getTransactionReceipt p event of
        Inl e \<Rightarrow> transactions
      | Inr None \<Rightarrow> transactions
      | Inr (Some receipt) \<Rightarrow>
      (case getBlock p (receipt.blockNumber receipt) of
        Inl e \<Rightarrow> transactions
      | Inr None \<Rightarrow> transactions
      | Inr (Some block) \<Rightarrow>
          pushVotes p events
            (transactions @
               [\<lparr>hash = event,
                 timestamp = Date (int (block.timestamp block) * 1000),
                 from = receipt.from receipt, to = receipt.to receipt,
                 value = ''0'', method = ''castVote'',
                 blockNumber = receipt.blockNumber receipt,
                 status = statusText (receipt.status receipt)\<rparr>])))"

text \<open>The body of the loop over the rounds, lines 562 to 657, and the loop.\<close>

definition pushElection ::
  "contract \<Rightarrow> provider \<Rightarrow> transaction list \<Rightarrow> nat \<Rightarrow> transaction list" where
  "pushElection c p transactions i =
     (case elections c i of
        Inl electionError \<Rightarrow> transactions
      | Inr election \<Rightarrow>
          if \<not> exists election then transactions
          else (let transactions = pushCreation c p election i transactions
                in case voteCastEvents c i of
                     Inl voteEventError \<Rightarrow> transactions
                   | Inr voteEvents \<Rightarrow> pushVotes p voteEvents transactions))"

definition electionRecords :: "contract \<Rightarrow> provider \<Rightarrow> nat \<Rightarrow> transaction list" where
  "electionRecords c p electionCount = foldl (pushElection c p) [] [1 ..< Suc electionCount]"

text \<open>
  The block scan, lines 661 to 721. \<^verbatim>\<open>toLowerCase\<close> is taken on the letters A to Z, which
  is all an address has; \<open>stringIncludes\<close> is \<^verbatim>\<open>includes\<close> and looks for the text at every
  position.
\<close>

definition toLowerCase :: "string \<Rightarrow> string" where
  "toLowerCase s =
     map (\<lambda>ch. let n = (of_char ch :: nat) in if 65 \<le> n \<and> n \<le> 90 then char_of (n + 32) else ch) s"

definition stringIncludes :: "string \<Rightarrow> string \<Rightarrow> bool" where
  "stringIncludes s part = list_ex (\<lambda>k. take (length part) (drop k s) = part) [0 ..< Suc (length s)]"

definition involvesContract :: "transaction_response \<Rightarrow> bool" where
  "involvesContract tx \<longleftrightarrow>
     toLowerCase (transaction_response.to tx) = toLowerCase CONTRACT_ADDRESS \<or>
     toLowerCase (transaction_response.from tx) = toLowerCase CONTRACT_ADDRESS"

definition methodOf :: "string \<Rightarrow> string" where
  "methodOf callData =
     (if stringIncludes callData ''9112c1eb'' then ''createElection''
      else if stringIncludes callData ''0121b93f'' then ''castVote''
      else ''Contract Interaction'')"

text \<open>The transactions of one block that involve the contract; a record of a hash that is
  known is passed over, and a throw leaves the rest of the block unvisited.\<close>

fun pushBlockTransactions ::
  "provider \<Rightarrow> full_block \<Rightarrow> transaction_response list \<Rightarrow> transaction list \<Rightarrow> transaction list" where
  "pushBlockTransactions p block [] transactions = transactions"
| "pushBlockTransactions p block (tx # contractTxs) transactions =
     (if list_ex (\<lambda>t. hash t = transaction_response.hash tx) transactions
      then pushBlockTransactions p block contractTxs transactions
      else case getTransactionReceipt p (transaction_response.hash tx) of
             Inl blockError \<Rightarrow> transactions
           | Inr None \<Rightarrow> transactions
           | Inr (Some receipt) \<Rightarrow>
               pushBlockTransactions p block contractTxs
                 (transactions @
                    [\<lparr>hash = transaction_response.hash tx,
                      timestamp = Date (int (full_block.timestamp block) * 1000),
                      from = transaction_response.from tx, to = transaction_response.to tx,
                      value = transaction_response.value tx,
                      method = methodOf (data tx),
                      blockNumber = transaction_response.blockNumber tx,
                      status = statusText (receipt.status receipt)\<rparr>]))"

definition pushBlock :: "provider \<Rightarrow> nat \<Rightarrow> transaction list \<Rightarrow> transaction list" where
  "pushBlock p i transactions =
     (case getBlockWithTransactions p i of
        Inl blockError \<Rightarrow> transactions
      | Inr None \<Rightarrow> transactions
      | Inr (Some block) \<Rightarrow>
          pushBlockTransactions p block
            (filter involvesContract (block_transactions block)) transactions)"

text \<open>The loop \<^verbatim>\<open>for (i = latestBlock; i >= startBlock && transactions.length < 20; i -= 100)\<close>.\<close>

function scanBlocks :: "provider \<Rightarrow> int \<Rightarrow> int \<Rightarrow> transaction list \<Rightarrow> transaction list" where
  "scanBlocks p startBlock i transactions =
     (if i \<ge> startBlock \<and> length transactions < 20
      then scanBlocks p startBlock (i - 100) (pushBlock p (nat i) transactions)
      else transactions)"
  by pat_completeness auto
termination
  by (relation "measure (\<lambda>(p, startBlock, i, transactions). nat (i - startBlock + 1))") auto

declare scanBlocks.simps [simp del]

definition searchRange :: int where
  "searchRange = 10000"

definition blockRecords :: "provider \<Rightarrow> transaction list \<Rightarrow> transaction list" where
  "blockRecords p transactions =
     (case getBlockNumber p of
        Inl blockRangeError \<Rightarrow> transactions
      | Inr latestBlock \<Rightarrow>
          scanBlocks p (max 0 (int latestBlock - searchRange)) (int latestBlock) transactions)"

text \<open>Lines 561 to 721 together: what the events and the block scan find.\<close>

definition chainRecords :: "contract \<Rightarrow> provider \<Rightarrow> nat \<Rightarrow> transaction list" where
  "chainRecords c p electionCount = blockRecords p (electionRecords c p electionCount)"

definition txHash :: string where
  "txHash = ''0xb9980e0f5557844fcf9409074df1e3c86bb6c2aec5e4c6e9795250c899513ac9''"

text \<open>
  Lines 760 to 777: the record of the hard-coded transaction, or nothing where a lookup
  throws or gives \<^verbatim>\<open>null\<close> (reading a field of \<^verbatim>\<open>null\<close> throws into the same \<^verbatim>\<open>catch\<close>).
\<close>

definition knownTransaction :: "provider \<Rightarrow> transaction list" where
  "knownTransaction p =
     (case getTransaction p txHash of
        Inl e \<Rightarrow> []
      | Inr tx \<Rightarrow>
      (case getTransactionReceipt p txHash of
        Inl e \<Rightarrow> []
      | Inr receipt \<Rightarrow>
      (case tx of
        None \<Rightarrow> []
      | Some tx \<Rightarrow>
      (case getBlock p (transaction_response.blockNumber tx) of
        Inl e \<Rightarrow> []
      | Inr None \<Rightarrow> []
      | Inr (Some block) \<Rightarrow>
      (case receipt of
        None \<Rightarrow> []
      | Some receipt \<Rightarrow>
          [\<lparr>hash = txHash,
            timestamp = Date (int (block.timestamp block) * 1000),
            from = receipt.from receipt, to = receipt.to receipt,
            value = transaction_response.value tx, method = ''createElection'',
            blockNumber = transaction_response.blockNumber tx,
            status = statusText (receipt.status receipt)\<rparr>])))))"

text \<open>
  Lines 724 to 734 and 737 to 747: a stored record is pushed unless a record of that hash
  is there already; an item that does not parse is passed over.
\<close>

definition pushStored :: "transaction item option \<Rightarrow> transaction list \<Rightarrow> transaction list" where
  "pushStored stored transactions =
     (case stored of
        None \<Rightarrow> transactions
      | Some Garbled \<Rightarrow> transactions
      | Some (Parsed txData) \<Rightarrow>
          if list_ex (\<lambda>t. hash t = hash txData) transactions then transactions
          else transactions @ [txData])"

text \<open>
  \<^verbatim>\<open>t.timestamp?.getTime() || 0\<close>: the milliseconds of a \<^verbatim>\<open>Date\<close>, 0 for a missing
  field; a string has no \<^verbatim>\<open>getTime\<close>, and calling it throws a \<^verbatim>\<open>TypeError\<close>.
\<close>

fun getTime :: "timestamp \<Rightarrow> int attempt" where
  "getTime (Date ms) = Inr ms"
| "getTime (DateString ms) = Inl typeError"
| "getTime NoDate = Inr 0"

definition millis :: "transaction \<Rightarrow> int" where
  "millis t = (case getTime (timestamp t) of Inl e \<Rightarrow> 0 | Inr ms \<Rightarrow> ms)"

text \<open>
  Lines 782 to 784, \<^verbatim>\<open>transactions.sort((a, b) => key(b) - key(a))\<close>. On fewer than two
  records the comparison function is not called. On two or more it is called on every
  record, so it throws when one of them has a string for its timestamp; otherwise the
  records come out newest first, records of equal time in the order they had.
\<close>

definition sortNewestFirst :: "transaction list \<Rightarrow> transaction list attempt" where
  "sortNewestFirst transactions =
     (if length transactions < 2 then Inr transactions
      else if list_ex (\<lambda>t. isl (getTime (timestamp t))) transactions then Inl typeError
      else Inr (sort_key (\<lambda>t. - millis t) transactions))"

text \<open>
  The function. The first read, \<^verbatim>\<open>contract.currentElectionId()\<close>, throws into the outer
  \<^verbatim>\<open>catch\<close>, as the sort does; every other failure is caught where it happens.
\<close>

definition getContractTransactions ::
  "contract \<Rightarrow> provider \<Rightarrow> localStorage \<Rightarrow> transaction list" where
  "getContractTransactions c p ls =
     (case currentElectionId c of
        Inl err \<Rightarrow> []
      | Inr electionCount \<Rightarrow>
          (let transactions = chainRecords c p electionCount;
               transactions = pushStored (lastElectionCreationTx ls) transactions;
               transactions = pushStored (lastVoteCastTx ls) transactions;
               transactions =
                 (if length transactions = 0 \<and> consoleItems p > 0
                  then transactions @ knownTransaction p else transactions)
           in case sortNewestFirst transactions of
                Inl err \<Rightarrow> []
              | Inr sortedTransactions \<Rightarrow> sortedTransactions))"

section \<open>The terms of the specification\<close>

text \<open>Round \<open>i\<close> answers its read, exists, and its window contains \<open>now\<close> (seconds).\<close>

definition isActiveAt :: "contract \<Rightarrow> int \<Rightarrow> nat \<Rightarrow> bool" where
  "isActiveAt c now i =
     (case elections c i of Inl err \<Rightarrow> False | Inr e \<Rightarrow> exists e \<and> inWindow e now)"

text \<open>The cached "last creation" and "last vote" records, as the specification puts it:
  their union, a record of a hash that is there already left out.\<close>

definition storedRecord :: "transaction item option \<Rightarrow> transaction list" where
  "storedRecord stored = (case stored of Some (Parsed t) \<Rightarrow> [t] | Some Garbled \<Rightarrow> [] | None \<Rightarrow> [])"

definition cachedUnion :: "localStorage \<Rightarrow> transaction list" where
  "cachedUnion ls =
     (let creation = storedRecord (lastElectionCreationTx ls)
      in creation @ filter (\<lambda>v. \<not> list_ex (\<lambda>t. hash t = hash v) creation)
                      (storedRecord (lastVoteCastTx ls)))"

text \<open>The \<^verbatim>\<open>transactionHash\<close> of what a write function returns, where it has one.\<close>

fun returnedHash :: "outcome \<Rightarrow> string option" where
  "returnedHash (Failure e) = None"
| "returnedHash (Success h) = Some h"
| "returnedHash (SuccessWithId h i f t b) = Some h"

text \<open>A lower-case hexadecimal digit.\<close>

definition isHexChar :: "char \<Rightarrow> bool" where
  "isHexChar ch \<longleftrightarrow> ch \<in> set ''0123456789abcdef''"

text \<open>The time a timestamp stands for, whether it is held as a \<^verbatim>\<open>Date\<close> or as the string
  of one: what "sorted by timestamp" compares.\<close>

definition millis_of_text :: "transaction \<Rightarrow> int" where
  "millis_of_text t =
     (case timestamp t of Date ms \<Rightarrow> ms | DateString ms \<Rightarrow> ms | NoDate \<Rightarrow> 0)"

text \<open>Sorted descending by timestamp.\<close>

definition newestFirst :: "transaction list \<Rightarrow> bool" where
  "newestFirst ts = sorted_wrt (\<lambda>a b. millis a \<ge> millis b) ts"

section \<open>Concrete inputs\<close>

definition networkError :: js_error where
  "networkError = \<lparr>code = ''NETWORK_ERROR'', message = Some ''could not detect network''\<rparr>"

text \<open>A node that cannot be reached: every read throws.\<close>

definition unreachable :: contract where
  "unreachable =
     \<lparr>currentElectionId = Inl networkError,
      elections = (\<lambda>i. Inl networkError),
      getCandidate_call = (\<lambda>e i. Inl networkError),
      getAllCandidates_call = (\<lambda>e. Inl networkError),
      getTotalVotes_call = (\<lambda>e. Inl networkError),
      electionCreatedEvents = (\<lambda>i. Inl networkError),
      voteCastEvents = (\<lambda>i. Inl networkError)\<rparr>"

definition aRound :: "string \<Rightarrow> nat \<Rightarrow> nat \<Rightarrow> election" where
  "aRound n s e = \<lparr>election.name = n, startTime = s, endTime = e, exists = True\<rparr>"

text \<open>What the contract's mapping gives for an id that was never written.\<close>

definition noRound :: election where
  "noRound = \<lparr>election.name = [], startTime = 0, endTime = 0, exists = False\<rparr>"

text \<open>Two rounds with the windows [10, 20] and [5, 25]; the second is the latest.\<close>

definition twoRounds :: contract where
  "twoRounds =
     unreachable\<lparr>currentElectionId := Inr 2,
       elections := (\<lambda>i. if i = 1 then Inr (aRound ''first'' 10 20)
                         else if i = 2 then Inr (aRound ''second'' 5 25)
                         else Inr noRound)\<rparr>"

text \<open>The same two rounds, and a third one that is over.\<close>

definition threeRounds :: contract where
  "threeRounds =
     unreachable\<lparr>currentElectionId := Inr 3,
       elections := (\<lambda>i. if i = 1 then Inr (aRound ''first'' 10 20)
                         else if i = 2 then Inr (aRound ''second'' 5 25)
                         else if i = 3 then Inr (aRound ''third'' 1 2)
                         else Inr noRound)\<rparr>"

text \<open>Round 1 does not answer, round 2 was never written, round 3 runs over [5, 25],
  round 4 is yet to start.\<close>

definition patchyRounds :: contract where
  "patchyRounds =
     unreachable\<lparr>currentElectionId := Inr 4,
       elections := (\<lambda>i. if i = 1 then Inl networkError
                         else if i = 3 then Inr (aRound ''third'' 5 25)
                         else if i = 4 then Inr (aRound ''fourth'' 30 40)
                         else Inr noRound)\<rparr>"

text \<open>The candidates of the specification's example, and a list left from an earlier
  read.\<close>

definition candidateA :: candidate where
  "candidateA = \<lparr>name = ''A'', party = Some ''X'', votes = 0, index = 0\<rparr>"

definition candidateB :: candidate where
  "candidateB = \<lparr>name = ''B'', party = Some ''Y'', votes = 0, index = 1\<rparr>"

definition staleList :: "candidate list" where
  "staleList = [\<lparr>name = ''Old'', party = Some ''Z'', votes = 7, index = 0\<rparr>]"

definition emptyStorage :: localStorage where
  "emptyStorage =
     \<lparr>election_candidates = (\<lambda>i. None), lastElectionCreationTx = None, lastVoteCastTx = None\<rparr>"

definition staleStorage :: localStorage where
  "staleStorage = emptyStorage\<lparr>election_candidates := [3 \<mapsto> Parsed staleList]\<rparr>"

definition cachedStorage :: localStorage where
  "cachedStorage = emptyStorage\<lparr>election_candidates := [3 \<mapsto> Parsed [candidateA, candidateB]]\<rparr>"

text \<open>
  Round 3 with the candidates A and B and no vote yet, as the contract call hands it over
  under ethers v6, the version whose \<^verbatim>\<open>JsonRpcProvider\<close> and \<^verbatim>\<open>BrowserProvider\<close> the module
  names: a \<^verbatim>\<open>uint256\<close> arrives as a \<^verbatim>\<open>bigint\<close>, which has no \<^verbatim>\<open>toNumber\<close>, so the call of it
  throws a \<^verbatim>\<open>TypeError\<close>. Then the same round with no candidate, and a round with the votes
  3, 5 and 2 on a contract whose \<^verbatim>\<open>getTotalVotes\<close> call fails.
\<close>

definition roundThreeV6 :: contract where
  "roundThreeV6 =
     unreachable\<lparr>getAllCandidates_call :=
       (\<lambda>e. if e = 3
             then Inr \<lparr>names = [''A'', ''B''], parties = [''X'', ''Y''],
                       votesCounts = [NoNumber typeError, NoNumber typeError]\<rparr>
             else Inl networkError)\<rparr>"

definition roundThreeEmpty :: contract where
  "roundThreeEmpty =
     unreachable\<lparr>getAllCandidates_call :=
       (\<lambda>e. Inr \<lparr>names = [], parties = [], votesCounts = []\<rparr>)\<rparr>"

definition tallyRound :: contract where
  "tallyRound =
     unreachable\<lparr>getAllCandidates_call :=
       (\<lambda>e. Inr \<lparr>names = [''A'', ''B'', ''C''], parties = [''X'', ''Y'', ''Z''],
                  votesCounts = [BigNumber 3, BigNumber 5, BigNumber 2]\<rparr>)\<rparr>"

text \<open>A wallet that grants every request, on a chain that mines the transaction in
  block 100; the same wallet with the user declining to sign; and with the contract
  reverting.\<close>

definition aReceipt :: receipt where
  "aReceipt =
     \<lparr>receipt.hash = ''0xabc'', from = ''0xvoter'',
      to = ''0xc0895D39fBBD1918067d5Fa41beDAF51d36665B5'', blockNumber = 100, status = Some 1\<rparr>"

definition workingWallet :: wallet where
  "workingWallet =
     \<lparr>ethereum = True, requestAccounts = Inr (), getSigner = Inr (),
      createElection_send = (\<lambda>a. Inr (Some aReceipt)),
      castVote_send = (\<lambda>a. Inr (Some aReceipt)),
      browser_getBlock = (\<lambda>n. Inr (Some \<lparr>block.timestamp = 1700000000\<rparr>)),
      signer_currentElectionId = Inr 1\<rparr>"

text \<open>
  The errors of the contract calls are built by ethers, whose \<^verbatim>\<open>makeError\<close> closes the
  message with the code and the version of the library: \<open>text\<close> is the message with the
  details that come before them.
\<close>

definition makeError :: "string \<Rightarrow> string \<Rightarrow> string \<Rightarrow> js_error" where
  "makeError text kind version =
     \<lparr>code = kind, message = Some (text @ ''code='' @ kind @ '', version='' @ version @ '')'')\<rparr>"


definition contractRevert :: js_error where
  "contractRevert =
     makeError ''execution reverted: Already voted (action=estimateGas, reason=Already voted, ''
       ''CALL_EXCEPTION'' ''6.13.0''"



text \<open>A wallet whose contract accepts the round ''Board'' only with the start time 1300
  and the end time 4600, and reverts on every other call.\<close>

definition pickyWallet :: wallet where
  "pickyWallet =
     workingWallet\<lparr>createElection_send :=
       (\<lambda>a. if a = CreateElection ''Board'' 1300 4600 [''A''] [''X'']
             then Inr (Some aReceipt) else Inl contractRevert)\<rparr>"

text \<open>A stand-in for SHA-256 with its output length, for the worked instance of
  \<^verbatim>\<open>hashNIN\<close>.\<close>

definition sampleDigest :: "byte list \<Rightarrow> byte list" where
  "sampleDigest bytes = map (\<lambda>j. of_nat (7 * j + length bytes)) [0 ..< 32]"

text \<open>
  A round created and voted in from one browser. The wallet has the round ''Board'' mined
  in block 100 (second 1700000000) and the vote in block 160 (second 1700000600); the
  contract then has that one round, running from 1700000290 to 1700003590, and answers
  its event queries with no event. \<open>afterCreateAndVote\<close> is \<^verbatim>\<open>localStorage\<close> as
  \<^verbatim>\<open>createElection\<close> and then \<^verbatim>\<open>castVote\<close> leave it, starting from nothing;
  \<open>creationRecord\<close> and \<open>voteRecord\<close> are the two records it then holds, as they are read
  back: the timestamp is a string. Then a provider that answers nothing; one whose latest
  block is block 250 and whose blocks hold no transaction of the contract where the scan
  looks (blocks 250, 150 and 50), that finds the hard-coded transaction in block 100,
  on a page with one matching resource entry; and the same provider on a page with none.
\<close>

definition creationReceipt :: receipt where
  "creationReceipt =
     \<lparr>receipt.hash = ''0xc1'', from = ''0xadmin'',
      to = ''0xc0895D39fBBD1918067d5Fa41beDAF51d36665B5'', blockNumber = 100, status = Some 1\<rparr>"

definition voteReceipt :: receipt where
  "voteReceipt =
     \<lparr>receipt.hash = ''0xv1'', from = ''0xvoter'',
      to = ''0xc0895D39fBBD1918067d5Fa41beDAF51d36665B5'', blockNumber = 160, status = Some 1\<rparr>"

definition browserWallet :: wallet where
  "browserWallet =
     \<lparr>ethereum = True, requestAccounts = Inr (), getSigner = Inr (),
      createElection_send = (\<lambda>a. Inr (Some creationReceipt)),
      castVote_send = (\<lambda>a. Inr (Some voteReceipt)),
      browser_getBlock =
        (\<lambda>n. Inr (Some \<lparr>block.timestamp = (if n = 100 then 1700000000 else 1700000600)\<rparr>)),
      signer_currentElectionId = Inr 1\<rparr>"

definition afterCreateAndVote :: localStorage where
  "afterCreateAndVote =
     snd (castVote browserWallet
            (fst (snd (createElection browserWallet emptyStorage 1699999990000 ''Board''
                         1700000100000 1700003600000 [''A'', ''B''] [''X'', ''Y''])))
            1700000590000 1 0 ''0x5e'')"

definition oneRound :: contract where
  "oneRound =
     unreachable\<lparr>currentElectionId := Inr 1,
       elections := (\<lambda>i. if i = 1 then Inr (aRound ''Board'' 1700000290 1700003590) else Inr noRound),
       electionCreatedEvents := (\<lambda>i. Inr []), voteCastEvents := (\<lambda>i. Inr [])\<rparr>"

definition creationRecord :: transaction where
  "creationRecord =
     \<lparr>hash = ''0xc1'', timestamp = DateString 1700000000000, from = ''0xadmin'',
      to = ''0xc0895D39fBBD1918067d5Fa41beDAF51d36665B5'', value = ''0'',
      method = ''createElection'', blockNumber = 100, status = ''Confirmed''\<rparr>"

definition voteRecord :: transaction where
  "voteRecord =
     \<lparr>hash = ''0xv1'', timestamp = DateString 1700000600000, from = ''0xvoter'',
      to = ''0xc0895D39fBBD1918067d5Fa41beDAF51d36665B5'', value = ''0'',
      method = ''castVote'', blockNumber = 160, status = ''Confirmed''\<rparr>"

definition voteOnlyStorage :: localStorage where
  "voteOnlyStorage = emptyStorage\<lparr>lastVoteCastTx := Some (Parsed voteRecord)\<rparr>"

definition silentProvider :: provider where
  "silentProvider =
     \<lparr>getTransaction = (\<lambda>h. Inl networkError),
      getTransactionReceipt = (\<lambda>h. Inl networkError),
      getBlock = (\<lambda>n. Inl networkError),
      getBlockNumber = Inl networkError,
      getBlockWithTransactions = (\<lambda>n. Inl networkError),
      consoleItems = 0\<rparr>"

definition loggingProvider :: provider where
  "loggingProvider =
     \<lparr>getTransaction =
        (\<lambda>h. Inr (Some \<lparr>transaction_response.hash = h, from = ''0xvoter'',
                          to = ''0xc0895D39fBBD1918067d5Fa41beDAF51d36665B5'',
                          data = ''0x9112c1eb'', value = ''0'', blockNumber = 100\<rparr>)),
      getTransactionReceipt = (\<lambda>h. Inr (Some aReceipt)),
      getBlock = (\<lambda>n. Inr (Some \<lparr>block.timestamp = 1700000000\<rparr>)),
      getBlockNumber = Inr 250,
      getBlockWithTransactions =
        (\<lambda>n. Inr (Some \<lparr>full_block.timestamp = 1700000000 + 2 * n, block_transactions = []\<rparr>)),
      consoleItems = 1\<rparr>"

definition quietProvider :: provider where
  "quietProvider = loggingProvider\<lparr>consoleItems := 0\<rparr>"

text \<open>A contract on which no round was created yet.\<close>

definition noRounds :: contract where
  "noRounds =
     unreachable\<lparr>currentElectionId := Inr 0, elections := (\<lambda>i. Inr noRound),
                 electionCreatedEvents := (\<lambda>i. Inr []), voteCastEvents := (\<lambda>i. Inr [])\<rparr>"

section \<open>Verified properties\<close>

subsection \<open>Round discovery\<close>

text \<open>The scan by what it returns: 0 when no id of its range is active, and the first
  active id otherwise.\<close>

lemma scanElections_none:
  "(\<And>j. i \<le> j \<Longrightarrow> j \<le> hi \<Longrightarrow> \<not> isActiveAt c now j) \<Longrightarrow> scanElections c now hi i = 0"
proof (induction c now hi i rule: scanElections.induct)
  case (1 c now hi i)
  show ?case
  proof (cases "i \<le> hi")
    case False
    then show ?thesis by (simp add: scanElections.simps [of c now hi i])
  next
    case True
    have na: "\<not> isActiveAt c now i" using 1(4) True by simp
    have rest: "\<And>j. i + 1 \<le> j \<Longrightarrow> j \<le> hi \<Longrightarrow> \<not> isActiveAt c now j"
      using 1(4) by simp
    show ?thesis
    proof (cases "elections c i")
      case (Inl err)
      then show ?thesis
        using True 1(1) [OF True Inl] rest
        by (simp add: scanElections.simps [of c now hi i])
    next
      case (Inr e)
      show ?thesis
      proof (cases "exists e")
        case False
        then show ?thesis
          using True Inr 1(2) [OF True Inr] rest
          by (simp add: scanElections.simps [of c now hi i])
      next
        case ex: True
        then have nw: "\<not> inWindow e now" using na Inr by (simp add: isActiveAt_def)
        then show ?thesis
          using True Inr ex 1(3) [OF True Inr] rest
          by (simp add: scanElections.simps [of c now hi i])
      qed
    qed
  qed
qed

lemma scanElections_first:
  "i \<le> m \<Longrightarrow> m \<le> hi \<Longrightarrow> isActiveAt c now m
     \<Longrightarrow> (\<And>j. i \<le> j \<Longrightarrow> j < m \<Longrightarrow> \<not> isActiveAt c now j)
     \<Longrightarrow> scanElections c now hi i = m"
proof (induction c now hi i rule: scanElections.induct)
  case (1 c now hi i)
  have ihi: "i \<le> hi" using 1(4,5) by simp
  show ?case
  proof (cases "i = m")
    case True
    then show ?thesis
      using 1(6) ihi
      by (auto simp: scanElections.simps [of c now hi m] isActiveAt_def split: sum.splits)
  next
    case False
    then have lt: "i < m" and nxt: "i + 1 \<le> m" using 1(4) by simp_all
    have na: "\<not> isActiveAt c now i" using 1(7) lt by simp
    have rest: "\<And>j. i + 1 \<le> j \<Longrightarrow> j < m \<Longrightarrow> \<not> isActiveAt c now j"
      using 1(7) by simp
    show ?thesis
    proof (cases "elections c i")
      case (Inl err)
      then show ?thesis
        using ihi 1(1) [OF ihi Inl nxt 1(5) 1(6)] rest
        by (simp add: scanElections.simps [of c now hi i])
    next
      case (Inr e)
      show ?thesis
      proof (cases "exists e")
        case False
        then show ?thesis
          using ihi Inr 1(2) [OF ihi Inr _ nxt 1(5) 1(6)] rest
          by (simp add: scanElections.simps [of c now hi i])
      next
        case ex: True
        then have nw: "\<not> inWindow e now" using na Inr by (simp add: isActiveAt_def)
        then show ?thesis
          using ihi Inr ex 1(3) [OF ihi Inr _ _ nxt 1(5) 1(6)] rest
          by (simp add: scanElections.simps [of c now hi i])
      qed
    qed
  qed
qed

text \<open>
  C1, as amended. The claim reads: whenever some round exists and its window contains the
  current time, \<^verbatim>\<open>getActiveElectionId\<close> returns the smallest such id. The function looks at
  the latest round first. With \<^verbatim>\<open>currentElectionId\<close> read as \<open>cur\<close>: when \<open>cur > 0\<close> and
  round \<open>cur\<close> is active, \<open>cur\<close> is returned, whatever lower ids are active too; when the
  latest round answers its read and is not active (or \<open>cur = 0\<close>), the result is the smallest
  id in \<open>1..max(cur, 10)\<close> whose round answers its read, exists and has the current time
  in its window.
\<close>

theorem getActiveElectionId_current_round_first:
  assumes "currentElectionId c = Inr cur" and "now = dateNow div 1000"
  shows "(cur > 0 \<and> isActiveAt c now cur \<longrightarrow> getActiveElectionId c dateNow = cur) \<and>
         ((cur = 0 \<or> (\<exists>e. elections c cur = Inr e \<and> \<not> (exists e \<and> inWindow e now)))
            \<and> 1 \<le> m \<and> m \<le> max cur maxElectionsToCheck \<and> isActiveAt c now m
            \<and> (\<forall>j. 1 \<le> j \<and> j < m \<longrightarrow> \<not> isActiveAt c now j)
          \<longrightarrow> getActiveElectionId c dateNow = m)"
proof (intro conjI impI)
  assume "cur > 0 \<and> isActiveAt c now cur"
  then show "getActiveElectionId c dateNow = cur"
    using assms by (auto simp: getActiveElectionId_def Let_def isActiveAt_def split: sum.splits)
next
  assume h: "(cur = 0 \<or> (\<exists>e. elections c cur = Inr e \<and> \<not> (exists e \<and> inWindow e now)))
            \<and> 1 \<le> m \<and> m \<le> max cur maxElectionsToCheck \<and> isActiveAt c now m
            \<and> (\<forall>j. 1 \<le> j \<and> j < m \<longrightarrow> \<not> isActiveAt c now j)"
  then have scan: "scanElections c now (max cur maxElectionsToCheck) 1 = m"
    by (intro scanElections_first) auto
  from h have "cur = 0 \<or> (\<exists>e. elections c cur = Inr e \<and> \<not> (exists e \<and> inWindow e now))"
    by simp
  then show "getActiveElectionId c dateNow = m"
    using assms scan by (auto simp: getActiveElectionId_def Let_def)
qed

text \<open>Both parts at work: with the windows [10, 20] and [5, 25] at time 15, the latest
  round 2 is returned while it is the latest; once a third round that is over is the
  latest, the scan returns round 1.\<close>

theorem getActiveElectionId_current_round_first_witness:
  "getActiveElectionId twoRounds 15000 = 2 \<and> getActiveElectionId threeRounds 15000 = 1"
proof -
  have a: "getActiveElectionId twoRounds 15000 = 2"
    using getActiveElectionId_current_round_first
      [where c = twoRounds and cur = 2 and now = 15 and dateNow = 15000 and m = 1]
    by (simp add: twoRounds_def isActiveAt_def aRound_def inWindow_def)
  have b: "getActiveElectionId threeRounds 15000 = 1"
    using getActiveElectionId_current_round_first
      [where c = threeRounds and cur = 3 and now = 15 and dateNow = 15000 and m = 1]
    by (simp add: threeRounds_def isActiveAt_def aRound_def inWindow_def maxElectionsToCheck_def)
  from a b show ?thesis ..
qed

text \<open>C1 as stated fails: rounds 1 and 2 are both active at time 15, and the id returned
  is 2, not the lower one.\<close>

theorem getActiveElectionId_lower_id_counterexample:
  "isActiveAt twoRounds 15 1 \<and> isActiveAt twoRounds 15 2 \<and>
   getActiveElectionId twoRounds (15 * 1000) = 2"
  by (simp add: twoRounds_def isActiveAt_def aRound_def inWindow_def getActiveElectionId_def Let_def)

text \<open>
  C8. In the ascending scan, a round whose read throws is passed over and the scan goes on
  with the next id; so is a round with \<open>exists = false\<close>; and when no id of the range is
  active the scan, and with it \<^verbatim>\<open>getActiveElectionId\<close>, returns the sentinel 0.
\<close>

theorem scanElections_read_failure_not_fatal:
  "(i \<le> hi \<and> elections c i = Inl err
      \<longrightarrow> scanElections c now hi i = scanElections c now hi (i + 1)) \<and>
   (i \<le> hi \<and> elections c i = Inr e \<and> \<not> exists e
      \<longrightarrow> scanElections c now hi i = scanElections c now hi (i + 1)) \<and>
   ((\<forall>j. i \<le> j \<and> j \<le> hi \<longrightarrow> \<not> isActiveAt c now j) \<longrightarrow> scanElections c now hi i = 0) \<and>
   (currentElectionId c = Inr cur
      \<and> (\<forall>j. 1 \<le> j \<and> j \<le> max cur maxElectionsToCheck \<longrightarrow> \<not> isActiveAt c (dateNow div 1000) j)
      \<longrightarrow> getActiveElectionId c dateNow = 0)"
proof (intro conjI impI)
  assume "i \<le> hi \<and> elections c i = Inl err"
  then show "scanElections c now hi i = scanElections c now hi (i + 1)"
    by (simp add: scanElections.simps [of c now hi i])
next
  assume "i \<le> hi \<and> elections c i = Inr e \<and> \<not> exists e"
  then show "scanElections c now hi i = scanElections c now hi (i + 1)"
    by (simp add: scanElections.simps [of c now hi i])
next
  assume "\<forall>j. i \<le> j \<and> j \<le> hi \<longrightarrow> \<not> isActiveAt c now j"
  then show "scanElections c now hi i = 0"
    by (intro scanElections_none) auto
next
  assume h: "currentElectionId c = Inr cur
      \<and> (\<forall>j. 1 \<le> j \<and> j \<le> max cur maxElectionsToCheck \<longrightarrow> \<not> isActiveAt c (dateNow div 1000) j)"
  then have scan: "scanElections c (dateNow div 1000) (max cur maxElectionsToCheck) 1 = 0"
    by (intro scanElections_none) auto
  from h have cur: "currentElectionId c = Inr cur" by simp
  show "getActiveElectionId c dateNow = 0"
  proof (cases "cur > 0")
    case False
    then show ?thesis using cur scan by (simp add: getActiveElectionId_def Let_def)
  next
    case True
    then have "\<not> isActiveAt c (dateNow div 1000) cur" using h by simp
    then show ?thesis
      using cur scan True
      by (auto simp: getActiveElectionId_def Let_def isActiveAt_def split: sum.splits)
  qed
qed

text \<open>Round 1 throws and round 2 was never written: the scan goes on and finds round 3.
  With all three rounds over, 0 is returned.\<close>

theorem scanElections_read_failure_not_fatal_witness:
  "scanElections patchyRounds 15 10 1 = scanElections patchyRounds 15 10 2 \<and>
   scanElections patchyRounds 15 10 2 = scanElections patchyRounds 15 10 3 \<and>
   scanElections threeRounds 100 10 1 = 0 \<and>
   getActiveElectionId threeRounds 100000 = 0 \<and>
   getActiveElectionId patchyRounds 15000 = 3"
proof -
  note t = scanElections_read_failure_not_fatal
  have a: "scanElections patchyRounds 15 10 1 = scanElections patchyRounds 15 10 2"
    using t [where c = patchyRounds and i = 1 and hi = 10 and err = networkError and now = 15]
    by (simp add: patchyRounds_def numeral_2_eq_2)
  have b: "scanElections patchyRounds 15 10 2 = scanElections patchyRounds 15 10 3"
    using t [where c = patchyRounds and i = 2 and hi = 10 and e = noRound and now = 15]
    by (simp add: patchyRounds_def noRound_def numeral_2_eq_2 numeral_3_eq_3)
  have c: "scanElections threeRounds 100 10 1 = 0"
    using t [where c = threeRounds and i = 1 and hi = 10 and now = 100]
    by (simp add: threeRounds_def isActiveAt_def aRound_def noRound_def inWindow_def)
  have d: "getActiveElectionId threeRounds 100000 = 0"
    using t [where c = threeRounds and cur = 3 and dateNow = 100000]
    by (simp add: threeRounds_def isActiveAt_def aRound_def noRound_def inWindow_def)
  have e: "scanElections patchyRounds 15 10 3 = 3"
    by (subst scanElections.simps) (simp add: patchyRounds_def aRound_def inWindow_def)
  have f: "getActiveElectionId patchyRounds 15000 = 3"
    using a b e
    by (simp add: getActiveElectionId_def Let_def patchyRounds_def aRound_def inWindow_def maxElectionsToCheck_def)
  from a b c d f show ?thesis by simp
qed

subsection \<open>Candidates and totals\<close>

lemma sumVotes_sum_list: "sumVotes cs = sum_list (map votes cs)"
proof -
  have "foldl (\<lambda>s x. s + votes x) a cs = a + sum_list (map votes cs)" for a
    by (induction cs arbitrary: a) simp_all
  then show ?thesis by (simp add: sumVotes_def)
qed

text \<open>
  The successful read, in the model: when the chain read and the conversion of every vote
  count succeed, the fetched list is returned; a list that is not empty replaces the cache
  entry of the round and nothing else of the storage changes; an empty list leaves the
  storage as it was, by the test \<^verbatim>\<open>if (candidates.length > 0)\<close>.
\<close>

lemma getAllCandidates_success:
  assumes "readCandidates c electionId = Inr candidates"
  shows "fst (getAllCandidates c ls electionId) = candidates \<and>
         (candidates \<noteq> [] \<longrightarrow>
            snd (getAllCandidates c ls electionId)
              = ls\<lparr>election_candidates :=
                     (election_candidates ls)(electionId \<mapsto> Parsed candidates)\<rparr>) \<and>
         (candidates = [] \<longrightarrow> snd (getAllCandidates c ls electionId) = ls)"
  using assms by (simp add: getAllCandidates_def)

text \<open>The read of round 3 succeeds with no candidate, and the cache entry of round 3 is
  the stale list afterwards.\<close>

lemma getAllCandidates_empty_read:
  "readCandidates roundThreeEmpty 3 = Inr [] \<and>
   election_candidates (snd (getAllCandidates roundThreeEmpty staleStorage 3)) 3
     = Some (Parsed staleList)"
  by (simp add: readCandidates_def roundThreeEmpty_def getAllCandidates_def staleStorage_def
      staleList_def)

text \<open>
  Where no vote count of the array read has a \<^verbatim>\<open>toNumber\<close> that returns, the loop throws at
  its first candidate: the function never writes the cache, and with a candidate in the
  array it returns what the cache holds.
\<close>

lemma getAllCandidates_without_toNumber:
  assumes call: "getAllCandidates_call c electionId = Inr result"
    and none: "list_all (\<lambda>v. isl (toNumber v)) (votesCounts result)"
  shows "snd (getAllCandidates c ls electionId) = ls \<and>
         (names result \<noteq> [] \<longrightarrow>
            fst (getAllCandidates c ls electionId)
              = (case election_candidates ls electionId of
                   Some (Parsed parsed) \<Rightarrow> parsed | Some Garbled \<Rightarrow> [] | None \<Rightarrow> []))"
proof (cases "names result = []")
  case True
  then have "readCandidates c electionId = Inr []"
    using call by (simp add: readCandidates_def)
  then show ?thesis
    using True by (simp add: getAllCandidates_def)
next
  case False
  then have idx: "[0 ..< length (names result)] = 0 # [1 ..< length (names result)]"
    by (simp add: upt_conv_Cons)
  have "isl (pushCandidates result (0 # is) acc)" for "is" acc
  proof (cases "at (votesCounts result) 0")
    case None
    then show ?thesis by simp
  next
    case (Some v)
    then have "v \<in> set (votesCounts result)"
      by (auto simp: at_def split: if_splits)
    then have "isl (toNumber v)"
      using none by (simp add: list_all_iff)
    then show ?thesis
      using Some by (auto simp: isl_def)
  qed
  then have "isl (readCandidates c electionId)"
    using call idx by (simp add: readCandidates_def)
  then obtain err where "readCandidates c electionId = Inl err"
    by (auto simp: isl_def)
  then show ?thesis
    by (simp add: getAllCandidates_def split: option.splits item.splits)
qed

text \<open>
  C2, at the failing input. The claim reads: a successful chain read of the candidate
  array overwrites the cache entry of the round with the fetched list before it is
  returned. The chain read of round 3 succeeds with the candidates A and B; the vote
  counts are \<^verbatim>\<open>bigint\<close>s, \<^verbatim>\<open>result.votesCounts[0].toNumber()\<close> throws, and the \<^verbatim>\<open>catch\<close>
  returns the stale list of the cache, which stays as it was.
\<close>

theorem getAllCandidates_keeps_stale_entry:
  "getAllCandidates_call roundThreeV6 3
     = Inr \<lparr>names = [''A'', ''B''], parties = [''X'', ''Y''],
            votesCounts = [NoNumber typeError, NoNumber typeError]\<rparr> \<and>
   election_candidates staleStorage 3 = Some (Parsed staleList) \<and>
   getAllCandidates roundThreeV6 staleStorage 3 = (staleList, staleStorage)"
  by (simp add: roundThreeV6_def unreachable_def staleStorage_def emptyStorage_def
      getAllCandidates_def readCandidates_def at_def upt_rec)

text \<open>
  C3. When the chain read fails (the call throws, or a vote count does not convert), a
  cached candidate list of the round is returned as it is, and with no cache entry the
  result is the empty list; either way a list is returned, and the storage is unchanged.
\<close>

theorem getAllCandidates_cache_fallback:
  assumes "readCandidates c electionId = Inl err"
  shows "(election_candidates ls electionId = Some (Parsed cached)
            \<longrightarrow> getAllCandidates c ls electionId = (cached, ls)) \<and>
         (election_candidates ls electionId = None
            \<longrightarrow> getAllCandidates c ls electionId = ([], ls))"
  using assms by (simp add: getAllCandidates_def)

text \<open>The node cannot be reached: the two cached candidates of round 3 come back; from
  an empty cache, the empty list.\<close>

theorem getAllCandidates_cache_fallback_witness:
  "getAllCandidates unreachable cachedStorage 3 = ([candidateA, candidateB], cachedStorage) \<and>
   getAllCandidates unreachable emptyStorage 3 = ([], emptyStorage)"
proof -
  have f: "readCandidates unreachable 3 = Inl networkError"
    by (simp add: readCandidates_def unreachable_def)
  show ?thesis
    using getAllCandidates_cache_fallback [OF f, of cachedStorage "[candidateA, candidateB]"]
      getAllCandidates_cache_fallback [OF f, of emptyStorage]
    by (simp add: cachedStorage_def emptyStorage_def)
qed

text \<open>Write and read back: the list a successful read has cached is the list a later,
  failing read returns.\<close>

lemma getAllCandidates_round_trip:
  assumes "readCandidates c electionId = Inr candidates" and "candidates \<noteq> []"
    and "readCandidates c' electionId = Inl err"
  shows "fst (getAllCandidates c' (snd (getAllCandidates c ls electionId)) electionId) = candidates"
  using assms by (simp add: getAllCandidates_def)

text \<open>
  C4. When the direct \<^verbatim>\<open>getTotalVotes\<close> call throws, or what it returns does not convert,
  the total is the sum of the votes over the list \<^verbatim>\<open>getAllCandidates\<close> returns (and the
  storage is the one \<^verbatim>\<open>getAllCandidates\<close> leaves).
\<close>

theorem getTotalVotes_fallback_sum:
  assumes "getTotalVotes_call c electionId = Inl err \<or>
           (\<exists>v. getTotalVotes_call c electionId = Inr v \<and> toNumber v = Inl err)"
  shows "fst (getTotalVotes c ls electionId)
           = sum_list (map votes (fst (getAllCandidates c ls electionId))) \<and>
         snd (getTotalVotes c ls electionId) = snd (getAllCandidates c ls electionId)"
  using assms
  by (auto simp: getTotalVotes_def sumVotes_sum_list split: prod.splits)

text \<open>Candidates with the votes 3, 5 and 2: the total is 10.\<close>

theorem getTotalVotes_fallback_sum_witness:
  "map votes (fst (getAllCandidates tallyRound emptyStorage 1)) = [3, 5, 2] \<and>
   fst (getTotalVotes tallyRound emptyStorage 1) = 10"
proof -
  have r: "readCandidates tallyRound 1 =
             Inr [\<lparr>name = ''A'', party = Some ''X'', votes = 3, index = 0\<rparr>,
                  \<lparr>name = ''B'', party = Some ''Y'', votes = 5, index = 1\<rparr>,
                  \<lparr>name = ''C'', party = Some ''Z'', votes = 2, index = 2\<rparr>]"
    by (simp add: readCandidates_def tallyRound_def at_def upt_rec)
  have v: "map votes (fst (getAllCandidates tallyRound emptyStorage 1)) = [3, 5, 2]"
    using r by (simp add: getAllCandidates_def)
  have f: "getTotalVotes_call tallyRound 1 = Inl networkError"
    by (simp add: tallyRound_def unreachable_def)
  show ?thesis
    using getTotalVotes_fallback_sum [where c = tallyRound and electionId = 1
        and err = networkError and ls = emptyStorage] f v
    by simp
qed

text \<open>
  C10. When the per-candidate read throws, \<^verbatim>\<open>getCandidate\<close> returns \<^verbatim>\<open>null\<close> whatever
  \<^verbatim>\<open>localStorage\<close> holds, and leaves it as it was: no cache fallback, no cache repair.
\<close>

theorem getCandidate_no_cache:
  assumes "getCandidate_call c electionId candidateIndex = Inl err"
  shows "getCandidate c ls electionId candidateIndex = (None, ls)"
  using assms by (simp add: getCandidate_def)

text \<open>The cache holds candidate 0 of round 3, and still the answer is \<^verbatim>\<open>null\<close>.\<close>

theorem getCandidate_no_cache_witness:
  "election_candidates cachedStorage 3 = Some (Parsed [candidateA, candidateB]) \<and>
   getCandidate unreachable cachedStorage 3 0 = (None, cachedStorage)"
proof -
  have f: "getCandidate_call unreachable 3 0 = Inl networkError"
    by (simp add: unreachable_def)
  show ?thesis
    using getCandidate_no_cache [OF f, of cachedStorage]
    by (simp add: cachedStorage_def)
qed

subsection \<open>The write functions\<close>





text \<open>
  C7. When the wallet is there and grants the account and the signer, and both dates
  given pass the test of lying in the future, the transaction is submitted by
  \<^verbatim>\<open>contract.createElection\<close> with the start time \<open>now + 300\<close> and the end time \<open>now + 3600\<close>,
  \<open>now\<close> the clock in seconds, and the dates given do not occur in the call: what the
  function returns is decided by the answer of the contract to that call. An error of
  that call is the error reported, and the receipt of that call gives the transaction
  hash returned.
\<close>

theorem createElection_adjusted_times:
  fixes w :: wallet and ls :: localStorage and dateNow startTime' endTime' :: int
    and name' :: string and candidateNames candidateParties :: "string list"
  defines "args \<equiv> CreateElection name' (dateNow div 1000 + 300) (dateNow div 1000 + 3600)
                     candidateNames candidateParties"
  defines "r \<equiv> createElection w ls dateNow name' startTime' endTime' candidateNames candidateParties"
  assumes "ethereum w" and "requestAccounts w = Inr ()" and "getSigner w = Inr ()"
    and "startTime' div 1000 > dateNow div 1000" and "endTime' div 1000 > dateNow div 1000"
  shows "snd (snd r) = Some args \<and>
         (createElection_send w args = Inl err \<longrightarrow> r = (createElectionError err, ls, Some args)) \<and>
         (createElection_send w args = Inr None \<longrightarrow>
            r = (createElectionError typeError, ls, Some args)) \<and>
         (createElection_send w args = Inr (Some receipt) \<longrightarrow>
            returnedHash (fst r) = Some (receipt.hash receipt))"
  using assms(3-7) unfolding args_def r_def
  by (simp add: createElection_def Let_def split: sum.splits option.splits)

text \<open>At second 1000, with the dates 5000 and 9000 given, on a contract that accepts the
  round with the times 1300 and 4600 only: the round is created.\<close>

theorem createElection_adjusted_times_witness:
  "createElection_send pickyWallet (CreateElection ''Board'' 5000 9000 [''A''] [''X''])
     = Inl contractRevert \<and>
   returnedHash (fst (createElection pickyWallet emptyStorage 1000000 ''Board'' 5000000 9000000
                        [''A''] [''X''])) = Some ''0xabc'' \<and>
   snd (snd (createElection pickyWallet emptyStorage 1000000 ''Board'' 5000000 9000000 [''A''] [''X'']))
     = Some (CreateElection ''Board'' 1300 4600 [''A''] [''X''])"
  using createElection_adjusted_times [where w = pickyWallet and dateNow = 1000000
      and startTime' = 5000000 and endTime' = 9000000 and ls = emptyStorage and name' = "''Board''"
      and candidateNames = "[''A'']" and candidateParties = "[''X'']" and receipt = aReceipt]
  by (simp add: pickyWallet_def workingWallet_def aReceipt_def)

subsection \<open>The privacy hash\<close>

lemma hexDigits_all: "list_all (\<lambda>d. isHexChar (hexDigit d)) [0 ..< 16]"
  by (simp add: upt_rec hexDigit_def isHexChar_def)

lemma hexDigit_isHexChar: "d < 16 \<Longrightarrow> isHexChar (hexDigit d)"
  using hexDigits_all by (simp add: list_all_iff)

lemma toString16_byte:
  assumes "n < 256"
  shows "length (padStart 2 (CHR ''0'') (toString16 n)) = 2 \<and>
         list_all isHexChar (padStart 2 (CHR ''0'') (toString16 n))"
proof (cases "n < 16")
  case True
  have zero: "isHexChar (CHR ''0'')" by (simp add: isHexChar_def)
  from True show ?thesis
    by (simp add: toString16.simps [of n] padStart_def hexDigit_isHexChar zero)
next
  case False
  then have hi: "n div 16 < 16" using assms by simp
  have "toString16 n = [hexDigit (n div 16), hexDigit (n mod 16)]"
    using False hi by (simp add: toString16.simps [of n] toString16.simps [of "n div 16"])
  then show ?thesis
    using hi by (simp add: padStart_def hexDigit_isHexChar)
qed

lemma hexBytes:
  "length (concat (map (\<lambda>b. padStart 2 (CHR ''0'') (toString16 (unat b))) (bs :: byte list)))
     = 2 * length bs \<and>
   list_all isHexChar (concat (map (\<lambda>b. padStart 2 (CHR ''0'') (toString16 (unat b))) bs))"
proof (induction bs)
  case Nil
  show ?case by simp
next
  case (Cons b bs)
  have "unat b < 256" using unsigned_less [of b] by simp
  from toString16_byte [OF this] Cons show ?case by simp
qed

text \<open>
  C9. For every input, and every digest function that gives 32 bytes on it (as SHA-256
  does), \<^verbatim>\<open>hashNIN\<close> returns \<^verbatim>\<open>0x\<close> followed by exactly 64 lower-case hexadecimal digits;
  and it is a function of its input: the same input gives the same output.
\<close>

theorem hashNIN_format:
  assumes "length (digest (encode nin)) = 32"
  shows "take 2 (hashNIN digest nin) = ''0x'' \<and>
         length (hashNIN digest nin) = 66 \<and>
         list_all isHexChar (drop 2 (hashNIN digest nin)) \<and>
         (nin' = nin \<longrightarrow> hashNIN digest nin' = hashNIN digest nin)"
  using assms hexBytes [of "digest (encode nin)"]
  by (simp add: hashNIN_def Let_def)

text \<open>An eleven-digit identifier under the stand-in digest.\<close>

theorem hashNIN_format_witness:
  "take 2 (hashNIN sampleDigest ''12345678901'') = ''0x'' \<and>
   length (hashNIN sampleDigest ''12345678901'') = 66 \<and>
   list_all isHexChar (drop 2 (hashNIN sampleDigest ''12345678901''))"
  using hashNIN_format [where digest = sampleDigest and nin = "''12345678901''"
      and nin' = "''12345678901''"]
  by (simp add: sampleDigest_def)

subsection \<open>History reconstruction\<close>

text \<open>On an empty list, the two pushes of stored records build the union of the
  specification.\<close>

lemma pushStored_both:
  "pushStored (lastVoteCastTx ls) (pushStored (lastElectionCreationTx ls) []) = cachedUnion ls"
  by (cases "lastElectionCreationTx ls"; cases "lastVoteCastTx ls")
     (auto simp: pushStored_def cachedUnion_def storedRecord_def Let_def split: item.splits)

text \<open>Where no round was created, all that the chain layers find is what the block scan
  finds; and the scan of the blocks 250, 150 and 50 finds nothing.\<close>

lemma chainRecords_noRounds: "chainRecords noRounds p 0 = blockRecords p []"
  by (simp add: chainRecords_def electionRecords_def)

lemma chainRecords_silent: "chainRecords noRounds silentProvider 0 = []"
  by (simp add: chainRecords_noRounds blockRecords_def silentProvider_def)

lemma blockRecords_logging: "blockRecords loggingProvider [] = []"
proof -
  have b: "pushBlock loggingProvider n ts = ts" for n ts
    by (simp add: pushBlock_def loggingProvider_def)
  have "scanBlocks loggingProvider 0 250 [] = []"
    by (simp add: scanBlocks.simps [of _ _ 250] scanBlocks.simps [of _ _ 150]
        scanBlocks.simps [of _ _ 50] scanBlocks.simps [of _ _ "- 50"] b)
  then show ?thesis
    by (simp add: blockRecords_def loggingProvider_def searchRange_def)
qed

lemma chainRecords_logging: "chainRecords noRounds loggingProvider 0 = []"
  by (simp add: chainRecords_noRounds blockRecords_logging)

lemma blockRecords_quiet: "blockRecords quietProvider [] = []"
proof -
  have b: "pushBlock quietProvider n ts = ts" for n ts
    by (simp add: pushBlock_def quietProvider_def loggingProvider_def)
  have "scanBlocks quietProvider 0 250 [] = []"
    by (simp add: scanBlocks.simps [of _ _ 250] scanBlocks.simps [of _ _ 150]
        scanBlocks.simps [of _ _ 50] scanBlocks.simps [of _ _ "- 50"] b)
  then show ?thesis
    by (simp add: blockRecords_def quietProvider_def loggingProvider_def searchRange_def)
qed

text \<open>The one round of \<open>oneRound\<close> has no event to be found, so the loop over the rounds
  pushes nothing.\<close>

lemma chainRecords_oneRound: "chainRecords oneRound quietProvider 1 = []"
proof -
  have "pushElection oneRound quietProvider [] 1 = []"
    by (simp add: pushElection_def pushCreation_def oneRound_def aRound_def)
  then have "electionRecords oneRound quietProvider 1 = []"
    by (simp add: electionRecords_def)
  then show ?thesis
    by (simp add: chainRecords_def blockRecords_quiet)
qed

lemma knownTransaction_short: "length (knownTransaction p) < 2"
  by (simp add: knownTransaction_def split: sum.splits option.splits)

lemma sortNewestFirst_ok:
  assumes "\<not> list_ex (\<lambda>t. isl (getTime (timestamp t))) ts"
  shows "\<exists>r. sortNewestFirst ts = Inr r \<and> mset r = mset ts \<and> newestFirst r"
proof (cases "length ts < 2")
  case True
  then have "ts = [] \<or> (\<exists>t. ts = [t])"
    by (cases ts) (auto simp: less_Suc_eq_0_disj)
  then show ?thesis
    using True by (auto simp: sortNewestFirst_def newestFirst_def)
next
  case False
  have "sorted (map (\<lambda>t. - millis t) (sort_key (\<lambda>t. - millis t) ts))"
    by (rule sorted_sort_key)
  then have "newestFirst (sort_key (\<lambda>t. - millis t) ts)"
    by (simp add: newestFirst_def sorted_map)
  then show ?thesis
    using False assms by (simp add: sortNewestFirst_def)
qed

text \<open>
  What the function does by its design when the read of \<^verbatim>\<open>currentElectionId\<close> succeeds and
  the events and the block scan give no record: a union of one record is returned as it
  is; an empty union gives the empty list when the page has no resource entry naming
  \<^verbatim>\<open>console.log\<close>, and otherwise the record of the hard-coded transaction, where the
  provider finds it; and where the sort does not throw, the union is returned newest
  first.
\<close>

lemma getContractTransactions_cached_layers:
  assumes "currentElectionId c = Inr electionCount" and "chainRecords c p electionCount = []"
  shows "(length (cachedUnion ls) = 1 \<longrightarrow> getContractTransactions c p ls = cachedUnion ls) \<and>
         (cachedUnion ls \<noteq> [] \<and> \<not> list_ex (\<lambda>t. isl (getTime (timestamp t))) (cachedUnion ls) \<longrightarrow>
            mset (getContractTransactions c p ls) = mset (cachedUnion ls) \<and>
            newestFirst (getContractTransactions c p ls)) \<and>
         (cachedUnion ls = [] \<and> consoleItems p = 0 \<longrightarrow> getContractTransactions c p ls = []) \<and>
         (cachedUnion ls = [] \<and> consoleItems p > 0 \<longrightarrow>
            getContractTransactions c p ls = knownTransaction p)"
proof (intro conjI impI)
  assume one: "length (cachedUnion ls) = 1"
  then have "cachedUnion ls \<noteq> []" by auto
  then show "getContractTransactions c p ls = cachedUnion ls"
    using assms one
    by (simp add: getContractTransactions_def Let_def pushStored_both sortNewestFirst_def)
next
  assume h: "cachedUnion ls \<noteq> [] \<and> \<not> list_ex (\<lambda>t. isl (getTime (timestamp t))) (cachedUnion ls)"
  from h obtain r where r: "sortNewestFirst (cachedUnion ls) = Inr r"
      "mset r = mset (cachedUnion ls)" "newestFirst r"
    using sortNewestFirst_ok by blast
  have g: "getContractTransactions c p ls = r"
    using assms h r(1) by (simp add: getContractTransactions_def Let_def pushStored_both)
  show "mset (getContractTransactions c p ls) = mset (cachedUnion ls)"
    using g r(2) by simp
  show "newestFirst (getContractTransactions c p ls)"
    using g r(3) by simp
next
  assume "cachedUnion ls = [] \<and> consoleItems p = 0"
  then show "getContractTransactions c p ls = []"
    using assms
    by (simp add: getContractTransactions_def Let_def pushStored_both sortNewestFirst_def)
next
  assume "cachedUnion ls = [] \<and> consoleItems p > 0"
  then show "getContractTransactions c p ls = knownTransaction p"
    using assms knownTransaction_short [of p]
    by (simp add: getContractTransactions_def Let_def pushStored_both sortNewestFirst_def)
qed

text \<open>With no round, a block scan that finds nothing, no record cached and a resource
  entry naming \<^verbatim>\<open>console.log\<close>, the result is the hard-coded transaction.\<close>

lemma getContractTransactions_known_transaction:
  "chainRecords noRounds loggingProvider 0 = [] \<and>
   cachedUnion emptyStorage = [] \<and>
   getContractTransactions noRounds loggingProvider emptyStorage
     = [\<lparr>hash = txHash, timestamp = Date 1700000000000, from = ''0xvoter'',
         to = ''0xc0895D39fBBD1918067d5Fa41beDAF51d36665B5'', value = ''0'',
         method = ''createElection'', blockNumber = 100, status = ''Confirmed''\<rparr>]"
proof -
  have n: "currentElectionId noRounds = Inr 0"
    by (simp add: noRounds_def)
  have u0: "cachedUnion emptyStorage = []"
    by (simp add: cachedUnion_def storedRecord_def emptyStorage_def)
  have "getContractTransactions noRounds loggingProvider emptyStorage = knownTransaction loggingProvider"
    using getContractTransactions_cached_layers [OF n chainRecords_logging, of emptyStorage] u0
    by (simp add: loggingProvider_def)
  moreover have "knownTransaction loggingProvider
     = [\<lparr>hash = txHash, timestamp = Date 1700000000000, from = ''0xvoter'',
         to = ''0xc0895D39fBBD1918067d5Fa41beDAF51d36665B5'', value = ''0'',
         method = ''createElection'', blockNumber = 100, status = ''Confirmed''\<rparr>]"
    by (simp add: knownTransaction_def loggingProvider_def aReceipt_def statusText_def)
  ultimately show ?thesis
    using chainRecords_logging u0 by simp
qed

text \<open>When the first read throws, the outer \<^verbatim>\<open>catch\<close> returns the empty list before the
  cache is looked at.\<close>

lemma getContractTransactions_unreachable:
  "cachedUnion voteOnlyStorage = [voteRecord] \<and>
   getContractTransactions unreachable silentProvider voteOnlyStorage = []"
  by (simp add: cachedUnion_def storedRecord_def voteOnlyStorage_def emptyStorage_def
      getContractTransactions_def unreachable_def)

text \<open>What \<^verbatim>\<open>createElection\<close> and then \<^verbatim>\<open>castVote\<close> leave in \<^verbatim>\<open>localStorage\<close>: the two
  records, each with a string for its timestamp, and the candidates of the round.\<close>

lemma afterCreateAndVote_holds:
  "afterCreateAndVote =
     \<lparr>election_candidates = [1 \<mapsto> Parsed [candidateA, candidateB]],
      lastElectionCreationTx = Some (Parsed creationRecord),
      lastVoteCastTx = Some (Parsed voteRecord)\<rparr>"
  by (simp add: afterCreateAndVote_def createElection_def castVote_def browserWallet_def
      emptyStorage_def creationReceipt_def voteReceipt_def creationRecord_def voteRecord_def
      jsonTransaction_def statusText_def candidateObjects_def at_def candidateA_def
      candidateB_def Let_def)

text \<open>A sort of two records, one of them with a string for its timestamp, throws.\<close>

lemma sortNewestFirst_string:
  assumes "length ts \<ge> 2" and "list_ex (\<lambda>t. isl (getTime (timestamp t))) ts"
  shows "sortNewestFirst ts = Inl typeError"
  using assms by (simp add: sortNewestFirst_def)

text \<open>
  C6, at the failing input. The claim reads: with no event and no block transaction found,
  the result is the union of the cached last-creation and last-vote records, without
  duplicates of a hash, sorted descending by timestamp, and it is empty only if every
  layer yields nothing. A round was created and voted in from this browser, so both
  records are cached; the one round has no event to be found and the block scan finds
  nothing. The union holds the two records, the vote being the newer; the comparison
  function of the sort calls \<^verbatim>\<open>getTime\<close> on the string that \<^verbatim>\<open>JSON.parse\<close> gave back for the
  timestamp, throws, and the outer \<^verbatim>\<open>catch\<close> returns the empty list.
\<close>

theorem getContractTransactions_cached_records_lost:
  "lastElectionCreationTx afterCreateAndVote = Some (Parsed creationRecord) \<and>
   lastVoteCastTx afterCreateAndVote = Some (Parsed voteRecord) \<and>
   currentElectionId oneRound = Inr 1 \<and>
   chainRecords oneRound quietProvider 1 = [] \<and>
   cachedUnion afterCreateAndVote = [creationRecord, voteRecord] \<and>
   millis_of_text voteRecord > millis_of_text creationRecord \<and>
   getContractTransactions oneRound quietProvider afterCreateAndVote = []"
proof -
  have n: "currentElectionId oneRound = Inr 1"
    by (simp add: oneRound_def)
  have u: "cachedUnion afterCreateAndVote = [creationRecord, voteRecord]"
    by (simp add: afterCreateAndVote_holds cachedUnion_def storedRecord_def
        creationRecord_def voteRecord_def)
  have s: "sortNewestFirst [creationRecord, voteRecord] = Inl typeError"
    by (rule sortNewestFirst_string) (simp_all add: creationRecord_def)
  have g: "getContractTransactions oneRound quietProvider afterCreateAndVote = []"
    using n chainRecords_oneRound u s
    by (simp add: getContractTransactions_def Let_def pushStored_both)
  have t: "millis_of_text voteRecord > millis_of_text creationRecord"
    by (simp add: millis_of_text_def voteRecord_def creationRecord_def)
  show ?thesis
    using n chainRecords_oneRound u g t by (simp add: afterCreateAndVote_holds)
qed

end
